theory Spec2Isabelle
  imports Complex_Main "HOL-Library.Word"
begin

section \<open>JavaScript values used by the widget\<close>

text \<open>
  A JavaScript string is a sequence of UTF-16 code units. The literals of
  \<^verbatim>\<open>ChatBot.tsx\<close> are ASCII except for the warning sign U+26A0 U+FE0F that starts the
  two configuration warnings.
\<close>

type_synonym jsstring = "16 word list"

definition ascii :: "string \<Rightarrow> jsstring" where
  "ascii s = map (\<lambda>c. of_nat (of_char c)) s"

text \<open>
  \<^verbatim>\<open>String.prototype.trim\<close> strips the code units of ECMAScript's WhiteSpace and
  LineTerminator productions from both ends.
\<close>

definition is_whitespace :: "16 word \<Rightarrow> bool" where
  "is_whitespace c =
     (c = 0x0009 \<or> c = 0x000A \<or> c = 0x000B \<or> c = 0x000C \<or> c = 0x000D \<or>
      c = 0x0020 \<or> c = 0x00A0 \<or> c = 0x1680 \<or> (0x2000 \<le> c \<and> c \<le> 0x200A) \<or>
      c = 0x2028 \<or> c = 0x2029 \<or> c = 0x202F \<or> c = 0x205F \<or> c = 0x3000 \<or>
      c = 0xFEFF)"

definition trim :: "jsstring \<Rightarrow> jsstring" where
  "trim s = rev (dropWhile is_whitespace (rev (dropWhile is_whitespace s)))"

text \<open>Truthiness of a string, and of a value of type \<^verbatim>\<open>string | null | undefined\<close>.\<close>

definition truthy :: "jsstring \<Rightarrow> bool" where
  "truthy s = (s \<noteq> [])"

fun truthy_opt :: "jsstring option \<Rightarrow> bool" where
  "truthy_opt None = False"
| "truthy_opt (Some s) = truthy s"

text \<open>The words of the specification: a draft that is empty or made of whitespace only.\<close>

definition whitespace_only :: "jsstring \<Rightarrow> bool" where
  "whitespace_only s = list_all is_whitespace s"

text \<open>A value caught by a \<^verbatim>\<open>catch\<close> clause.\<close>

datatype error =
    TypeError jsstring
  | ConnectionError jsstring
  | StatusError nat jsstring
  | OtherError jsstring

text \<open>One \<^verbatim>\<open>console.error(label, error)\<close> call.\<close>

type_synonym log_entry = "jsstring \<times> error"

section \<open>Data model\<close>

record Message =
  "text" :: jsstring
  isBot :: bool
  timestamp :: nat

datatype role = System | Assistant | User

record ChatCompletionMessageParam =
  role :: role
  content :: jsstring

record ChatCompletionCreateParams =
  messages_param :: "ChatCompletionMessageParam list"
  model :: jsstring
  temperature :: rat
  max_tokens :: nat

text \<open>
  The part of the completion that the handler reads:
  \<^verbatim>\<open>completion.choices[0]?.message?.content\<close>. A missing \<^verbatim>\<open>choices\<close> property,
  a missing \<^verbatim>\<open>message\<close> and a \<^verbatim>\<open>null\<close> or missing \<^verbatim>\<open>content\<close> are \<open>None\<close>.
\<close>

datatype ChatCompletionMessage = ChatCompletionMessage (msg_content: "jsstring option")

datatype Choice = Choice (choice_message: "ChatCompletionMessage option")

datatype ChatCompletion = ChatCompletion (choices: "Choice list option")

text \<open>How the awaited call \<^verbatim>\<open>openai.chat.completions.create\<close> settles.\<close>

datatype outcome = Throws error | Returns ChatCompletion

section \<open>The completion client\<close>

datatype OpenAI = OpenAI (apiKey: jsstring) (dangerouslyAllowBrowser: bool)

text \<open>
  The module-level initialisation. The constructor belongs to the \<^verbatim>\<open>openai\<close> package
  and is a parameter; \<open>Inl\<close> is a constructor that throws. The result is the value of
  the variable \<^verbatim>\<open>openai\<close> and what was written to the console.
\<close>

definition init_openai ::
  "jsstring option \<Rightarrow> (jsstring \<Rightarrow> bool \<Rightarrow> error + OpenAI) \<Rightarrow> OpenAI option \<times> log_entry list" where
  "init_openai env_key new_OpenAI =
     (case env_key of
        None \<Rightarrow> (None, [])
      | Some k \<Rightarrow>
          if truthy k then
            (case new_OpenAI k True of
               Inr client \<Rightarrow> (Some client, [])
             | Inl e \<Rightarrow> (None, [(ascii ''Error initializing OpenAI client:'', e)]))
          else (None, []))"

definition SYSTEM_PROMPT :: jsstring where
  "SYSTEM_PROMPT =
     ascii ''You are an expert educational AI tutor. You can help with any subject including Mathematics, Physics, Chemistry, Biology, History, Literature, Computer Science, and more. Your responses should be:''
     @ [0x000A] @ ascii ''1. Educational and accurate''
     @ [0x000A] @ ascii ''2. Clear and easy to understand''
     @ [0x000A] @ ascii ''3. Concise but thorough''
     @ [0x000A] @ ascii ''4. Include examples when helpful''
     @ [0x000A] @ ascii ''5. Encourage critical thinking''
     @ [0x000A, 0x000A]
     @ ascii ''If a question is unclear, ask for clarification. If a topic is complex, break it down into simpler parts.''"

text \<open>The four fixed texts that the component writes into the store.\<close>

definition GREETING :: jsstring where
  "GREETING =
     ascii ''Hi! I'm your AI learning assistant. I can help you with any subject. What would you like to learn about?''"

definition KEY_NOT_CONFIGURED :: jsstring where
  "KEY_NOT_CONFIGURED =
     [0x26A0, 0xFE0F]
     @ ascii '' OpenAI API key is not configured. Please add your API key to the .env file to enable AI responses.''"

definition CANNOT_RESPOND :: jsstring where
  "CANNOT_RESPOND =
     [0x26A0, 0xFE0F]
     @ ascii '' I can't respond right now because the OpenAI API key is not configured. Please add your API key to continue.''"

definition TROUBLE_CONNECTING :: jsstring where
  "TROUBLE_CONNECTING =
     ascii ''I'm sorry, I'm having trouble connecting right now. Please try again in a moment.''"

section \<open>The component\<close>

text \<open>The six \<^verbatim>\<open>useState\<close> cells of \<^verbatim>\<open>ChatBot\<close>.\<close>

record ChatBot =
  isOpen :: bool
  isMinimized :: bool
  message :: jsstring
  isLoading :: bool
  messages :: "Message list"
  isApiKeySet :: bool

text \<open>The initial values given to \<^verbatim>\<open>useState\<close>; \<^verbatim>\<open>Boolean(openai)\<close> is false for \<^verbatim>\<open>null\<close>.\<close>

definition initial :: "OpenAI option \<Rightarrow> ChatBot" where
  "initial openai =
     \<lparr>isOpen = False, isMinimized = False, message = [], isLoading = False,
      messages = [], isApiKeySet = (openai \<noteq> None)\<rparr>"

text \<open>
  A handler or effect created by a render reads the state cells of that render (its
  closure, the argument \<open>c\<close>) and writes through the setters, which act on the current
  state \<open>s\<close>; an updater function \<^verbatim>\<open>prev => ...\<close> reads the current value.
  Each \<^verbatim>\<open>new Date()\<close> is a clock reading passed as an argument.
\<close>

definition seed_effect :: "ChatBot \<Rightarrow> ChatBot \<Rightarrow> nat \<Rightarrow> ChatBot" where
  "seed_effect c s now =
     s\<lparr>messages :=
         [\<lparr>text = (if isApiKeySet c then GREETING else KEY_NOT_CONFIGURED),
           isBot = True, timestamp = now\<rparr>]\<rparr>"

text \<open>
  Mounting: the first render, then the effect. Its dependency list is
  \<^verbatim>\<open>[isApiKeySet]\<close>, a cell that no handler writes, so it runs this once.
\<close>

definition mount :: "OpenAI option \<Rightarrow> nat \<Rightarrow> ChatBot" where
  "mount openai now = seed_effect (initial openai) (initial openai) now"

definition to_param :: "Message \<Rightarrow> ChatCompletionMessageParam" where
  "to_param msg = \<lparr>role = (if isBot msg then Assistant else User), content = text msg\<rparr>"

text \<open>
  \<^verbatim>\<open>handleSendMessage\<close> up to its first \<^verbatim>\<open>return\<close> or \<^verbatim>\<open>await\<close>: the new state and
  the request handed to \<^verbatim>\<open>openai.chat.completions.create\<close>, if one is made.
\<close>

definition handleSendMessage ::
  "ChatBot \<Rightarrow> ChatBot \<Rightarrow> nat \<Rightarrow> nat \<Rightarrow> ChatBot \<times> ChatCompletionCreateParams option" where
  "handleSendMessage c s now now' =
     (if \<not> truthy (trim (message c)) \<or> isLoading c then (s, None)
      else
        let userMessage = \<lparr>text = message c, isBot = False, timestamp = now\<rparr>;
            s1 = s\<lparr>messages := messages s @ [userMessage]\<rparr>;
            s2 = s1\<lparr>message := []\<rparr>
        in if \<not> isApiKeySet c then
             (s2\<lparr>messages := messages s2 @
                   [\<lparr>text = CANNOT_RESPOND, isBot = True, timestamp = now'\<rparr>]\<rparr>,
              None)
           else
             (s2\<lparr>isLoading := True\<rparr>,
              Some \<lparr>messages_param =
                      [\<lparr>role = System, content = SYSTEM_PROMPT\<rparr>]
                      @ map to_param (messages c)
                      @ [\<lparr>role = User, content = message c\<rparr>],
                    model = ascii ''gpt-3.5-turbo'',
                    temperature = 7 / 10,
                    max_tokens = 500\<rparr>))"

text \<open>
  \<^verbatim>\<open>completion.choices[0]?.message?.content\<close>: indexing a missing \<^verbatim>\<open>choices\<close> throws a
  TypeError; an empty array, a missing message and a missing content give \<^verbatim>\<open>undefined\<close>.
\<close>

definition botResponse :: "ChatCompletion \<Rightarrow> error + jsstring option" where
  "botResponse completion =
     (case choices completion of
        None \<Rightarrow> Inl (TypeError (ascii ''Cannot read properties of undefined (reading '0')''))
      | Some [] \<Rightarrow> Inr None
      | Some (ch # _) \<Rightarrow>
          (case choice_message ch of
             None \<Rightarrow> Inr None
           | Some m \<Rightarrow> Inr (msg_content m)))"

text \<open>
  The rest of \<^verbatim>\<open>handleSendMessage\<close>, run when the awaited call settles: the
  \<^verbatim>\<open>try\<close> body after the \<^verbatim>\<open>await\<close>, the \<^verbatim>\<open>catch\<close> clause and the \<^verbatim>\<open>finally\<close> clause.
  It reads no state cell of its closure; \<open>s\<close> is the state current when it runs.
\<close>

definition handleSendMessage_settled ::
  "ChatBot \<Rightarrow> outcome \<Rightarrow> nat \<Rightarrow> ChatBot \<times> log_entry list" where
  "handleSendMessage_settled s out now =
     (let tried = (case out of Throws e \<Rightarrow> Inl e | Returns completion \<Rightarrow> botResponse completion)
      in case tried of
           Inr b \<Rightarrow>
             (if truthy_opt b then
                let botMessage = \<lparr>text = the b, isBot = True, timestamp = now\<rparr>
                in ((s\<lparr>messages := messages s @ [botMessage]\<rparr>)\<lparr>isLoading := False\<rparr>, [])
              else (s\<lparr>isLoading := False\<rparr>, []))
         | Inl e \<Rightarrow>
             let errorMessage = \<lparr>text = TROUBLE_CONNECTING, isBot = True, timestamp = now\<rparr>
             in ((s\<lparr>messages := messages s @ [errorMessage]\<rparr>)\<lparr>isLoading := False\<rparr>,
                 [(ascii ''Error getting AI response:'', e)]))"

text \<open>The other handlers of the rendered tree.\<close>

definition open_click :: "ChatBot \<Rightarrow> ChatBot" where
  "open_click s = s\<lparr>isOpen := True\<rparr>"

definition minimize_click :: "ChatBot \<Rightarrow> ChatBot \<Rightarrow> ChatBot" where
  "minimize_click c s = s\<lparr>isMinimized := \<not> isMinimized c\<rparr>"

definition close_click :: "ChatBot \<Rightarrow> ChatBot" where
  "close_click s = s\<lparr>isOpen := False\<rparr>"

definition onChange :: "jsstring \<Rightarrow> ChatBot \<Rightarrow> ChatBot" where
  "onChange v s = s\<lparr>message := v\<rparr>"

section \<open>Events\<close>

text \<open>
  An event handled by the render that is current when it arrives: the closure of its
  handler holds the current state. A handler that an older render created is
  \<open>handleSendMessage c s\<close> with \<open>c\<close> the state of that render.
\<close>

definition submit :: "ChatBot \<Rightarrow> nat \<Rightarrow> nat \<Rightarrow> ChatBot \<times> ChatCompletionCreateParams option" where
  "submit s now now' = handleSendMessage s s now now'"

datatype event =
    OpenClick
  | MinimizeClick
  | CloseClick
  | Change jsstring
  | Submit nat nat
  | Settled outcome nat

fun step :: "ChatBot \<Rightarrow> event \<Rightarrow> ChatBot" where
  "step s OpenClick = open_click s"
| "step s MinimizeClick = minimize_click s s"
| "step s CloseClick = close_click s"
| "step s (Change v) = onChange v s"
| "step s (Submit now now') = fst (submit s now now')"
| "step s (Settled out now) = fst (handleSendMessage_settled s out now)"

definition run :: "ChatBot \<Rightarrow> event list \<Rightarrow> ChatBot" where
  "run s evs = foldl step s evs"

section \<open>A whole turn\<close>

text \<open>
  One submission and, when it made a request, the events \<open>evs\<close> that arrive while the
  request is in flight, then the settling of the awaited call. Only one call is
  awaited, so the events in between are the ones that \<open>in_flight_event\<close> accepts.
\<close>

fun in_flight_event :: "event \<Rightarrow> bool" where
  "in_flight_event (Settled out now) = False"
| "in_flight_event ev = True"

text \<open>The three handlers that only change the visibility of the widget.\<close>

fun visibility_event :: "event \<Rightarrow> bool" where
  "visibility_event OpenClick = True"
| "visibility_event MinimizeClick = True"
| "visibility_event CloseClick = True"
| "visibility_event ev = False"

definition complete_turn ::
  "ChatBot \<Rightarrow> nat \<Rightarrow> nat \<Rightarrow> event list \<Rightarrow> outcome \<Rightarrow> nat \<Rightarrow> ChatBot" where
  "complete_turn s now now' evs out later =
     (case submit s now now' of
        (s1, None) \<Rightarrow> s1
      | (s1, Some request) \<Rightarrow> fst (handleSendMessage_settled (run s1 evs) out later))"

text \<open>The messages that a turn added to a store that held \<open>before\<close>.\<close>

definition gained :: "ChatBot \<Rightarrow> ChatBot \<Rightarrow> Message list" where
  "gained before after = drop (length (messages before)) (messages after)"

section \<open>Concrete states\<close>

definition example_client :: OpenAI where
  "example_client = OpenAI (ascii ''sk-test'') True"

definition example_ctor :: "jsstring \<Rightarrow> bool \<Rightarrow> error + OpenAI" where
  "example_ctor k b = Inr (OpenAI k b)"

text \<open>A configured widget with the draft \<^verbatim>\<open>" hi "\<close>.\<close>

definition example_ready :: ChatBot where
  "example_ready = run (mount (Some example_client) 0) [OpenClick, Change (ascii '' hi '')]"


text \<open>A widget without a client, with the draft \<^verbatim>\<open>"hi"\<close>.\<close>

definition example_unconfigured :: ChatBot where
  "example_unconfigured = run (mount None 0) [OpenClick, Change (ascii ''hi'')]"


text \<open>A configured widget with a request in flight and the draft \<^verbatim>\<open>"more"\<close>.\<close>

definition example_in_flight :: ChatBot where
  "example_in_flight = run example_ready [Submit 1 2, Change (ascii ''more'')]"

text \<open>Completions without content, and one with the content \<^verbatim>\<open>"4"\<close>.\<close>

definition no_choices :: ChatCompletion where
  "no_choices = ChatCompletion (Some [])"

definition null_content :: ChatCompletion where
  "null_content = ChatCompletion (Some [Choice (Some (ChatCompletionMessage None))])"

definition reply_4 :: ChatCompletion where
  "reply_4 = ChatCompletion (Some [Choice (Some (ChatCompletionMessage (Some (ascii ''4''))))])"

text \<open>
  A configured widget after one whole turn (\<^verbatim>\<open>"hi"\<close>, answered \<^verbatim>\<open>"4"\<close>), with the
  same draft \<^verbatim>\<open>"hi"\<close> typed again.
\<close>

definition example_repeat :: ChatBot where
  "example_repeat =
     run (mount (Some example_client) 0)
       [Change (ascii ''hi''), Submit 1 2, Settled (Returns reply_4) 3, Change (ascii ''hi'')]"

section \<open>Properties of the handlers\<close>

subsection \<open>The acceptance guard\<close>

lemma trim_Nil_iff: "trim s = [] \<longleftrightarrow> list_all is_whitespace s"
proof
  assume "trim s = []"
  then have a: "\<forall>x\<in>set (dropWhile is_whitespace s). is_whitespace x"
    by (simp add: trim_def dropWhile_eq_Nil_conv)
  have "dropWhile is_whitespace s = []"
  proof (rule ccontr)
    assume n: "dropWhile is_whitespace s \<noteq> []"
    then have "\<not> is_whitespace (hd (dropWhile is_whitespace s))" by (rule hd_dropWhile)
    moreover from n have "hd (dropWhile is_whitespace s) \<in> set (dropWhile is_whitespace s)" by simp
    ultimately show False using a by blast
  qed
  then have "\<forall>x\<in>set s. is_whitespace x" by (rule dropWhile_eq_Nil_conv [THEN iffD1])
  then show "list_all is_whitespace s" by (simp add: list_all_iff)
next
  assume "list_all is_whitespace s"
  then have "\<forall>x\<in>set s. is_whitespace x" by (simp add: list_all_iff)
  then have "dropWhile is_whitespace s = []" by (rule dropWhile_eq_Nil_conv [THEN iffD2])
  then show "trim s = []" by (simp add: trim_def del: dropWhile_eq_Nil_conv)
qed

lemma guard_iff:
  "(\<not> truthy (trim (message c)) \<or> isLoading c) \<longleftrightarrow> (message c = [] \<or> whitespace_only (message c) \<or> isLoading c)"
  by (auto simp: truthy_def trim_Nil_iff whitespace_only_def)

lemma handleSendMessage_rejected:
  "message c = [] \<or> whitespace_only (message c) \<or> isLoading c \<Longrightarrow> handleSendMessage c s now now' = (s, None)"
  using guard_iff [of c] by (simp add: handleSendMessage_def)

lemma handleSendMessage_unavailable:
  assumes "\<not> whitespace_only (message c)" "\<not> isLoading c" "\<not> isApiKeySet c"
  shows "handleSendMessage c s now now' =
     (s\<lparr>messages := messages s @ [\<lparr>text = message c, isBot = False, timestamp = now\<rparr>,
                                  \<lparr>text = CANNOT_RESPOND, isBot = True, timestamp = now'\<rparr>],
        message := []\<rparr>, None)"
proof -
  from assms have "\<not> (\<not> truthy (trim (message c)) \<or> isLoading c)"
    by (simp add: truthy_def trim_Nil_iff whitespace_only_def)
  with assms(3) show ?thesis by (simp add: handleSendMessage_def Let_def)
qed

lemma handleSendMessage_available:
  assumes "\<not> whitespace_only (message c)" "\<not> isLoading c" "isApiKeySet c"
  shows "handleSendMessage c s now now' =
     (s\<lparr>messages := messages s @ [\<lparr>text = message c, isBot = False, timestamp = now\<rparr>],
        message := [], isLoading := True\<rparr>,
      Some \<lparr>messages_param = \<lparr>role = System, content = SYSTEM_PROMPT\<rparr>
                # map to_param (messages c) @ [\<lparr>role = User, content = message c\<rparr>],
            model = ascii ''gpt-3.5-turbo'', temperature = 7 / 10, max_tokens = 500\<rparr>)"
proof -
  from assms have "\<not> (\<not> truthy (trim (message c)) \<or> isLoading c)"
    by (simp add: truthy_def trim_Nil_iff whitespace_only_def)
  with assms(3) show ?thesis by (simp add: handleSendMessage_def Let_def)
qed

lemma settled_Throws:
  "handleSendMessage_settled s (Throws e) now =
     (s\<lparr>messages := messages s @ [\<lparr>text = TROUBLE_CONNECTING, isBot = True, timestamp = now\<rparr>],
        isLoading := False\<rparr>, [(ascii ''Error getting AI response:'', e)])"
  by (simp add: handleSendMessage_settled_def)

lemma settled_Returns:
  "handleSendMessage_settled s (Returns completion) now =
     (case botResponse completion of
        Inl e \<Rightarrow> (s\<lparr>messages := messages s @ [\<lparr>text = TROUBLE_CONNECTING, isBot = True, timestamp = now\<rparr>],
                    isLoading := False\<rparr>, [(ascii ''Error getting AI response:'', e)])
      | Inr None \<Rightarrow> (s\<lparr>isLoading := False\<rparr>, [])
      | Inr (Some r) \<Rightarrow>
          if r = [] then (s\<lparr>isLoading := False\<rparr>, [])
          else (s\<lparr>messages := messages s @ [\<lparr>text = r, isBot = True, timestamp = now\<rparr>],
                  isLoading := False\<rparr>, []))"
  by (simp add: handleSendMessage_settled_def truthy_def split: sum.splits option.splits)

lemma step_appends: "\<exists>ys. messages (step s ev) = messages s @ ys"
proof (cases ev)
  case (Submit t t')
  show ?thesis
    by (simp add: Submit submit_def handleSendMessage_def Let_def)
next
  case (Settled out t)
  show ?thesis
    by (cases out) (simp_all add: Settled settled_Throws settled_Returns split: sum.splits option.splits)
qed (simp_all add: open_click_def minimize_click_def close_click_def onChange_def)

lemma run_appends: "\<exists>ys. messages (run s evs) = messages s @ ys"
  unfolding run_def
proof (induction evs arbitrary: s)
  case Nil
  show ?case by simp
next
  case (Cons ev evs)
  obtain ys where a: "messages (step s ev) = messages s @ ys" using step_appends by blast
  obtain zs where b: "messages (foldl step (step s ev) evs) = messages (step s ev) @ zs"
    using Cons.IH by blast
  show ?case using a b by simp
qed

subsection \<open>The concrete states, evaluated\<close>

lemma ascii_hi_sp: "ascii '' hi '' = [0x20, 0x68, 0x69, 0x20]" by (simp add: ascii_def)
lemma ascii_hi: "ascii ''hi'' = [0x68, 0x69]" by (simp add: ascii_def)
lemma ascii_more: "ascii ''more'' \<noteq> []" by (simp add: ascii_def)

lemma not_ws_hi_sp: "\<not> whitespace_only (ascii '' hi '')"
  by (simp add: ascii_hi_sp whitespace_only_def is_whitespace_def)

lemma not_ws_hi: "\<not> whitespace_only (ascii ''hi'')"
  by (simp add: ascii_hi whitespace_only_def is_whitespace_def)


lemma example_ready_eq:
  "example_ready =
     \<lparr>isOpen = True, isMinimized = False, message = ascii '' hi '', isLoading = False,
      messages = [\<lparr>text = GREETING, isBot = True, timestamp = 0\<rparr>], isApiKeySet = True\<rparr>"
  by (simp add: example_ready_def run_def mount_def seed_effect_def initial_def
      open_click_def onChange_def)

lemma example_unconfigured_eq:
  "example_unconfigured =
     \<lparr>isOpen = True, isMinimized = False, message = ascii ''hi'', isLoading = False,
      messages = [\<lparr>text = KEY_NOT_CONFIGURED, isBot = True, timestamp = 0\<rparr>], isApiKeySet = False\<rparr>"
  by (simp add: example_unconfigured_def run_def mount_def seed_effect_def initial_def
      open_click_def onChange_def)


lemma example_in_flight_eq:
  "example_in_flight =
     \<lparr>isOpen = True, isMinimized = False, message = ascii ''more'', isLoading = True,
      messages = [\<lparr>text = GREETING, isBot = True, timestamp = 0\<rparr>,
                  \<lparr>text = ascii '' hi '', isBot = False, timestamp = 1\<rparr>],
      isApiKeySet = True\<rparr>"
proof -
  have "submit example_ready 1 2 = handleSendMessage example_ready example_ready 1 2"
    by (simp add: submit_def)
  also have "fst \<dots> = example_ready\<lparr>messages := messages example_ready @ [\<lparr>text = message example_ready, isBot = False, timestamp = 1\<rparr>],
        message := [], isLoading := True\<rparr>"
    by (subst handleSendMessage_available) (simp_all add: example_ready_eq not_ws_hi_sp)
  finally show ?thesis
    by (simp add: example_in_flight_def run_def onChange_def example_ready_eq)
qed

lemma botResponse_null_content: "botResponse null_content = Inr None"
  by (simp add: botResponse_def null_content_def)

lemma botResponse_no_choices: "botResponse no_choices = Inr None"
  by (simp add: botResponse_def no_choices_def)

lemma botResponse_reply_4: "botResponse reply_4 = Inr (Some (ascii ''4''))"
  by (simp add: botResponse_def reply_4_def)

lemma ascii_4: "ascii ''4'' \<noteq> []" by (simp add: ascii_def)

subsection \<open>Events while a request is in flight\<close>

lemma in_flight_step:
  assumes "isLoading s" "in_flight_event ev"
  shows "messages (step s ev) = messages s \<and> isLoading (step s ev)"
proof (cases ev)
  case (Submit t t')
  from assms(1) have "handleSendMessage s s t t' = (s, None)"
    by (simp add: handleSendMessage_rejected)
  with assms(1) show ?thesis by (simp add: Submit submit_def)
next
  case (Settled out t)
  with assms(2) show ?thesis by simp
qed (simp_all add: assms(1) open_click_def minimize_click_def close_click_def onChange_def)

lemma in_flight_run:
  "isLoading s \<Longrightarrow> list_all in_flight_event evs \<Longrightarrow>
   messages (run s evs) = messages s \<and> isLoading (run s evs)"
  unfolding run_def
proof (induction evs arbitrary: s)
  case Nil
  then show ?case by simp
next
  case (Cons ev evs)
  from Cons.prems have a: "messages (step s ev) = messages s \<and> isLoading (step s ev)"
    by (simp add: in_flight_step)
  from Cons.prems have "list_all in_flight_event evs" by simp
  with a Cons.IH [of "step s ev"] show ?case by simp
qed

lemma settled_messages:
  "messages (fst (handleSendMessage_settled s out later)) =
     messages s @
     (case out of
        Throws e \<Rightarrow> [\<lparr>text = TROUBLE_CONNECTING, isBot = True, timestamp = later\<rparr>]
      | Returns completion \<Rightarrow>
          (case botResponse completion of
             Inl e \<Rightarrow> [\<lparr>text = TROUBLE_CONNECTING, isBot = True, timestamp = later\<rparr>]
           | Inr None \<Rightarrow> []
           | Inr (Some r) \<Rightarrow>
               if r = [] then [] else [\<lparr>text = r, isBot = True, timestamp = later\<rparr>]))"
  by (cases out) (simp_all add: settled_Throws settled_Returns split: sum.splits option.splits)

lemma complete_turn_rejected:
  "message s = [] \<or> whitespace_only (message s) \<or> isLoading s \<Longrightarrow>
   complete_turn s now now' evs out later = s"
  by (simp add: complete_turn_def submit_def handleSendMessage_rejected)

lemma complete_turn_unavailable:
  assumes "\<not> whitespace_only (message s)" "\<not> isLoading s" "\<not> isApiKeySet s"
  shows "messages (complete_turn s now now' evs out later) =
     messages s @ [\<lparr>text = message s, isBot = False, timestamp = now\<rparr>,
                   \<lparr>text = CANNOT_RESPOND, isBot = True, timestamp = now'\<rparr>]"
  using assms by (simp add: complete_turn_def submit_def handleSendMessage_unavailable)

lemma complete_turn_available:
  assumes "\<not> whitespace_only (message s)" "\<not> isLoading s" "isApiKeySet s"
    and "list_all in_flight_event evs"
  shows "messages (complete_turn s now now' evs out later) =
     messages s @ \<lparr>text = message s, isBot = False, timestamp = now\<rparr> #
     (case out of
        Throws e \<Rightarrow> [\<lparr>text = TROUBLE_CONNECTING, isBot = True, timestamp = later\<rparr>]
      | Returns completion \<Rightarrow>
          (case botResponse completion of
             Inl e \<Rightarrow> [\<lparr>text = TROUBLE_CONNECTING, isBot = True, timestamp = later\<rparr>]
           | Inr None \<Rightarrow> []
           | Inr (Some r) \<Rightarrow>
               if r = [] then [] else [\<lparr>text = r, isBot = True, timestamp = later\<rparr>]))"
proof -
  define s1 where "s1 = s\<lparr>messages := messages s @ [\<lparr>text = message s, isBot = False, timestamp = now\<rparr>],
        message := [], isLoading := True\<rparr>"
  have "isLoading s1" by (simp add: s1_def)
  with assms(4) have m: "messages (run s1 evs) = messages s1" by (simp add: in_flight_run)
  from assms have "\<exists>request. submit s now now' = (s1, Some request)"
    by (simp add: submit_def handleSendMessage_available s1_def)
  then obtain request where "submit s now now' = (s1, Some request)" ..
  then have "complete_turn s now now' evs out later = fst (handleSendMessage_settled (run s1 evs) out later)"
    by (simp add: complete_turn_def)
  then show ?thesis using m by (simp add: settled_messages s1_def)
qed

subsection \<open>Submissions at the concrete states\<close>

lemma submit_unavailable_no_request: "\<not> isApiKeySet s \<Longrightarrow> snd (submit s now now') = None"
  by (simp add: submit_def handleSendMessage_def Let_def)

lemma ready_hyps:
  "message example_ready \<noteq> []" "\<not> whitespace_only (message example_ready)"
  "\<not> isLoading example_ready" "isApiKeySet example_ready"
  by (simp_all add: example_ready_eq not_ws_hi_sp) (simp add: ascii_def)

lemma unconfigured_hyps:
  "message example_unconfigured \<noteq> []" "\<not> whitespace_only (message example_unconfigured)"
  "\<not> isLoading example_unconfigured" "\<not> isApiKeySet example_unconfigured"
  by (simp_all add: example_unconfigured_eq not_ws_hi) (simp add: ascii_def)


lemma example_repeat_eq:
  "example_repeat =
     \<lparr>isOpen = False, isMinimized = False, message = ascii ''hi'', isLoading = False,
      messages = [\<lparr>text = GREETING, isBot = True, timestamp = 0\<rparr>,
                  \<lparr>text = ascii ''hi'', isBot = False, timestamp = 1\<rparr>,
                  \<lparr>text = ascii ''4'', isBot = True, timestamp = 3\<rparr>],
      isApiKeySet = True\<rparr>"
  by (simp add: example_repeat_def run_def mount_def seed_effect_def initial_def onChange_def
      submit_def handleSendMessage_available not_ws_hi settled_Returns botResponse_reply_4 ascii_4)

lemma repeat_hyps:
  "message example_repeat \<noteq> []" "\<not> whitespace_only (message example_repeat)"
  "\<not> isLoading example_repeat" "isApiKeySet example_repeat"
  by (simp_all add: example_repeat_eq not_ws_hi) (simp add: ascii_def)

subsection \<open>Mounting, and what a run keeps\<close>

lemma mount_messages:
  "messages (mount openai now) =
     [\<lparr>text = (if openai \<noteq> None then GREETING else KEY_NOT_CONFIGURED), isBot = True, timestamp = now\<rparr>]"
  by (simp add: mount_def seed_effect_def initial_def)

lemma run_keeps_first:
  "messages s = [m] \<Longrightarrow> take 1 (messages (run s evs)) = [m]"
  using run_appends [of s evs] by auto

lemma greeting_differs: "GREETING \<noteq> KEY_NOT_CONFIGURED"
  by (simp add: GREETING_def KEY_NOT_CONFIGURED_def ascii_def)

lemma step_visibility: "visibility_event ev \<Longrightarrow> messages (step s ev) = messages s"
  by (cases ev) (simp_all add: open_click_def minimize_click_def close_click_def)

lemma run_visibility: "list_all visibility_event evs \<Longrightarrow> messages (run s evs) = messages s"
  unfolding run_def
  by (induction evs arbitrary: s) (simp_all add: step_visibility)

lemma trim_hi_sp: "trim (ascii '' hi '') = ascii ''hi''"
  by (simp add: trim_def ascii_def is_whitespace_def)

lemma step_isApiKeySet: "isApiKeySet (step s ev) = isApiKeySet s"
proof (cases ev)
  case (Submit t t')
  show ?thesis by (simp add: Submit submit_def handleSendMessage_def Let_def)
next
  case (Settled out t)
  show ?thesis
    by (cases out) (simp_all add: Settled settled_Throws settled_Returns split: sum.splits option.splits)
qed (simp_all add: open_click_def minimize_click_def close_click_def onChange_def)

lemma run_isApiKeySet: "isApiKeySet (run s evs) = isApiKeySet s"
  unfolding run_def
  by (induction evs arbitrary: s) (simp_all add: step_isApiKeySet)

lemma mount_isApiKeySet: "isApiKeySet (mount openai now) = (openai \<noteq> None)"
  by (simp add: mount_def seed_effect_def initial_def)

section \<open>The claims\<close>

text \<open>
  C1 (as amended). For every accepted submission, that is a draft that is non-empty and
  not whitespace-only, submitted while no send is in flight, the turn appends exactly one
  user Message. It is followed by exactly one assistant Message when the client is
  unavailable (the configuration warning, at once), and, once the awaited call has
  settled, when that call failed (the fallback) and when it returned non-empty content
  (the reply); it is followed by none when the response has no content. Events that
  arrive while the request is in flight add nothing to the store.
\<close>

theorem turn_messages:
  assumes "message s \<noteq> []" and "\<not> whitespace_only (message s)" and "\<not> isLoading s"
    and "list_all in_flight_event evs"
  shows "messages (complete_turn s now now' evs out later) =
     messages s @
     \<lparr>text = message s, isBot = False, timestamp = now\<rparr> #
     (if \<not> isApiKeySet s then [\<lparr>text = CANNOT_RESPOND, isBot = True, timestamp = now'\<rparr>]
      else case out of
        Throws e \<Rightarrow> [\<lparr>text = TROUBLE_CONNECTING, isBot = True, timestamp = later\<rparr>]
      | Returns completion \<Rightarrow>
          (case botResponse completion of
             Inl e \<Rightarrow> [\<lparr>text = TROUBLE_CONNECTING, isBot = True, timestamp = later\<rparr>]
           | Inr None \<Rightarrow> []
           | Inr (Some r) \<Rightarrow>
               if r = [] then [] else [\<lparr>text = r, isBot = True, timestamp = later\<rparr>]))"
proof (cases "isApiKeySet s")
  case False
  with assms show ?thesis by (simp add: complete_turn_unavailable)
next
  case True
  with assms show ?thesis by (simp add: complete_turn_available)
qed

theorem turn_messages_witness:
  "message example_ready \<noteq> [] \<and> \<not> whitespace_only (message example_ready)
   \<and> \<not> isLoading example_ready \<and> list_all in_flight_event [CloseClick, Submit 3 4, OpenClick]
   \<and> messages (complete_turn example_ready 1 2 [CloseClick, Submit 3 4, OpenClick] (Returns reply_4) 5) =
       [\<lparr>text = GREETING, isBot = True, timestamp = 0\<rparr>,
        \<lparr>text = ascii '' hi '', isBot = False, timestamp = 1\<rparr>,
        \<lparr>text = ascii ''4'', isBot = True, timestamp = 5\<rparr>]"
proof -
  have h1: "message example_ready \<noteq> []" by (simp add: example_ready_eq ascii_hi_sp)
  have h2: "\<not> whitespace_only (message example_ready)" by (simp add: example_ready_eq not_ws_hi_sp)
  have h3: "\<not> isLoading example_ready" by (simp add: example_ready_eq)
  have h4: "list_all in_flight_event [CloseClick, Submit 3 4, OpenClick]" by simp
  show ?thesis
    using h1 h2 h3 h4 turn_messages [OF h1 h2 h3 h4, of 1 2 "Returns reply_4" 5]
    by (simp add: botResponse_reply_4 ascii_4 example_ready_eq)
qed

text \<open>
  Without those provisos the statement fails at two inputs: a response whose first
  choice has \<^verbatim>\<open>null\<close> content leaves the turn without any assistant Message, and a
  non-empty draft submitted while a send is in flight appends nothing at all.
\<close>

theorem turn_reply_counterexample:
  "message example_ready \<noteq> [] \<and> \<not> whitespace_only (message example_ready)
   \<and> length (filter isBot (gained example_ready
        (complete_turn example_ready 1 2 [] (Returns null_content) 3))) = 0
   \<and> message example_in_flight \<noteq> [] \<and> \<not> whitespace_only (message example_in_flight)
   \<and> gained example_in_flight (complete_turn example_in_flight 4 5 [] (Returns reply_4) 6) = []"
proof -
  have h1: "message example_ready \<noteq> []" by (simp add: example_ready_eq ascii_hi_sp)
  have h2: "\<not> whitespace_only (message example_ready)" by (simp add: example_ready_eq not_ws_hi_sp)
  have h3: "\<not> isLoading example_ready" by (simp add: example_ready_eq)
  have h4: "isApiKeySet example_ready" by (simp add: example_ready_eq)
  have a: "messages (complete_turn example_ready 1 2 [] (Returns null_content) 3) =
      messages example_ready @ [\<lparr>text = message example_ready, isBot = False, timestamp = 1\<rparr>]"
    using complete_turn_available [OF h2 h3 h4, of "[]" 1 2 "Returns null_content" 3]
    by (simp add: botResponse_null_content)
  have b: "length (filter isBot (gained example_ready
        (complete_turn example_ready 1 2 [] (Returns null_content) 3))) = 0"
    unfolding gained_def a by simp
  have g1: "message example_in_flight \<noteq> []" by (simp add: example_in_flight_eq ascii_more)
  have g2: "\<not> whitespace_only (message example_in_flight)"
    by (simp add: example_in_flight_eq ascii_def whitespace_only_def is_whitespace_def)
  have g3: "isLoading example_in_flight" by (simp add: example_in_flight_eq)
  have c: "gained example_in_flight (complete_turn example_in_flight 4 5 [] (Returns reply_4) 6) = []"
    using g3 by (simp add: gained_def complete_turn_rejected)
  show ?thesis using h1 h2 b g1 g2 c by simp
qed

text \<open>
  C2. For every accepted submission with the client available, the request handed to the
  client holds, in order, the system instruction record, one record for every message of
  the store as it was before the submission (role assistant when \<open>isBot\<close>, role user
  otherwise) and a final user record with the new text; its model is \<^verbatim>\<open>gpt-3.5-turbo\<close>,
  its temperature 0.7 and its maximum output length 500 tokens.
\<close>

theorem request_payload:
  assumes "message s \<noteq> []" and "\<not> whitespace_only (message s)" and "\<not> isLoading s"
    and "isApiKeySet s"
  shows "snd (submit s now now') =
     Some \<lparr>messages_param =
             [\<lparr>role = System, content = SYSTEM_PROMPT\<rparr>]
             @ map (\<lambda>msg. \<lparr>role = (if isBot msg then Assistant else User), content = text msg\<rparr>)
                 (messages s)
             @ [\<lparr>role = User, content = message s\<rparr>],
           model = ascii ''gpt-3.5-turbo'', temperature = 7 / 10, max_tokens = 500\<rparr>"
proof -
  have "to_param = (\<lambda>msg. \<lparr>role = (if isBot msg then Assistant else User), content = text msg\<rparr>)"
    by (rule ext) (simp add: to_param_def)
  with assms show ?thesis by (simp add: submit_def handleSendMessage_available)
qed

theorem request_payload_witness:
  "message example_ready \<noteq> [] \<and> \<not> whitespace_only (message example_ready)
   \<and> \<not> isLoading example_ready \<and> isApiKeySet example_ready
   \<and> snd (submit example_ready 1 2) =
     Some \<lparr>messages_param =
             [\<lparr>role = System, content = SYSTEM_PROMPT\<rparr>,
              \<lparr>role = Assistant, content = GREETING\<rparr>,
              \<lparr>role = User, content = ascii '' hi ''\<rparr>],
           model = ascii ''gpt-3.5-turbo'', temperature = 7 / 10, max_tokens = 500\<rparr>"
  using request_payload [OF ready_hyps, of 1 2] ready_hyps
  by (simp add: example_ready_eq)

text \<open>
  C3. With the client unavailable no submission makes a request, and an accepted
  submission appends the user Message and, directly after it, one assistant Message
  with the fixed configuration warning; the loading flag stays off. The flag
  \<open>isApiKeySet\<close> is off in every state of a widget mounted without a client.
\<close>

theorem unavailable_short_circuit:
  assumes "\<not> isApiKeySet s"
  shows "snd (submit s now now') = None
    \<and> (message s \<noteq> [] \<and> \<not> whitespace_only (message s) \<and> \<not> isLoading s \<longrightarrow>
       submit s now now' =
         (s\<lparr>messages := messages s @ [\<lparr>text = message s, isBot = False, timestamp = now\<rparr>,
                                      \<lparr>text = CANNOT_RESPOND, isBot = True, timestamp = now'\<rparr>],
            message := []\<rparr>, None))
    \<and> \<not> isApiKeySet (run (mount None t0) evs)"
proof -
  from assms have a: "snd (submit s now now') = None" by (rule submit_unavailable_no_request)
  have b: "message s \<noteq> [] \<and> \<not> whitespace_only (message s) \<and> \<not> isLoading s \<longrightarrow>
     submit s now now' =
       (s\<lparr>messages := messages s @ [\<lparr>text = message s, isBot = False, timestamp = now\<rparr>,
                                    \<lparr>text = CANNOT_RESPOND, isBot = True, timestamp = now'\<rparr>],
          message := []\<rparr>, None)"
    using assms by (simp add: submit_def handleSendMessage_unavailable)
  have c: "\<not> isApiKeySet (run (mount None t0) evs)"
    by (simp add: run_isApiKeySet mount_isApiKeySet)
  from a b c show ?thesis by blast
qed

theorem unavailable_short_circuit_witness:
  "example_unconfigured = run (mount None 0) [OpenClick, Change (ascii ''hi'')]
   \<and> \<not> isApiKeySet example_unconfigured \<and> message example_unconfigured \<noteq> []
   \<and> \<not> whitespace_only (message example_unconfigured) \<and> \<not> isLoading example_unconfigured
   \<and> submit example_unconfigured 1 2 =
       (\<lparr>isOpen = True, isMinimized = False, message = [], isLoading = False,
         messages = [\<lparr>text = KEY_NOT_CONFIGURED, isBot = True, timestamp = 0\<rparr>,
                     \<lparr>text = ascii ''hi'', isBot = False, timestamp = 1\<rparr>,
                     \<lparr>text = CANNOT_RESPOND, isBot = True, timestamp = 2\<rparr>],
         isApiKeySet = False\<rparr>, None)"
proof -
  have d: "example_unconfigured = run (mount None 0) [OpenClick, Change (ascii ''hi'')]"
    by (simp add: example_unconfigured_def)
  have "submit example_unconfigured 1 2 =
       (\<lparr>isOpen = True, isMinimized = False, message = [], isLoading = False,
         messages = [\<lparr>text = KEY_NOT_CONFIGURED, isBot = True, timestamp = 0\<rparr>,
                     \<lparr>text = ascii ''hi'', isBot = False, timestamp = 1\<rparr>,
                     \<lparr>text = CANNOT_RESPOND, isBot = True, timestamp = 2\<rparr>],
         isApiKeySet = False\<rparr>, None)"
    using unavailable_short_circuit [OF unconfigured_hyps(4), of 1 2] unconfigured_hyps
    by (simp add: example_unconfigured_eq)
  with d unconfigured_hyps show ?thesis by blast
qed

text \<open>
  C4. Whatever the awaited call throws, and also when reading the completion throws
  because it has no \<^verbatim>\<open>choices\<close>, the handler appends exactly one assistant Message whose
  text is the fixed fallback, and the error goes to the console only: the turn has
  added the user Message and the fallback, whatever the error was.
\<close>

theorem failure_fallback:
  "handleSendMessage_settled s (Throws e) later =
     (s\<lparr>messages := messages s @ [\<lparr>text = TROUBLE_CONNECTING, isBot = True, timestamp = later\<rparr>],
        isLoading := False\<rparr>,
      [(ascii ''Error getting AI response:'', e)])
   \<and> handleSendMessage_settled s (Returns (ChatCompletion None)) later =
     (s\<lparr>messages := messages s @ [\<lparr>text = TROUBLE_CONNECTING, isBot = True, timestamp = later\<rparr>],
        isLoading := False\<rparr>,
      [(ascii ''Error getting AI response:'',
        TypeError (ascii ''Cannot read properties of undefined (reading '0')''))])
   \<and> (message s0 \<noteq> [] \<and> \<not> whitespace_only (message s0) \<and> \<not> isLoading s0 \<and> isApiKeySet s0
        \<and> list_all in_flight_event evs \<longrightarrow>
      messages (complete_turn s0 now now' evs (Throws e) later) =
        messages s0 @ [\<lparr>text = message s0, isBot = False, timestamp = now\<rparr>,
                       \<lparr>text = TROUBLE_CONNECTING, isBot = True, timestamp = later\<rparr>])"
proof -
  have a: "handleSendMessage_settled s (Throws e) later =
     (s\<lparr>messages := messages s @ [\<lparr>text = TROUBLE_CONNECTING, isBot = True, timestamp = later\<rparr>],
        isLoading := False\<rparr>,
      [(ascii ''Error getting AI response:'', e)])"
    by (rule settled_Throws)
  have b: "handleSendMessage_settled s (Returns (ChatCompletion None)) later =
     (s\<lparr>messages := messages s @ [\<lparr>text = TROUBLE_CONNECTING, isBot = True, timestamp = later\<rparr>],
        isLoading := False\<rparr>,
      [(ascii ''Error getting AI response:'',
        TypeError (ascii ''Cannot read properties of undefined (reading '0')''))])"
    by (simp add: settled_Returns botResponse_def)
  have c: "message s0 \<noteq> [] \<and> \<not> whitespace_only (message s0) \<and> \<not> isLoading s0 \<and> isApiKeySet s0
        \<and> list_all in_flight_event evs \<longrightarrow>
      messages (complete_turn s0 now now' evs (Throws e) later) =
        messages s0 @ [\<lparr>text = message s0, isBot = False, timestamp = now\<rparr>,
                       \<lparr>text = TROUBLE_CONNECTING, isBot = True, timestamp = later\<rparr>]"
    by (simp add: complete_turn_available)
  from a b c show ?thesis by blast
qed

theorem failure_fallback_witness:
  "messages (fst (handleSendMessage_settled example_in_flight
       (Throws (StatusError 500 (ascii ''Internal Server Error''))) 9)) =
     [\<lparr>text = GREETING, isBot = True, timestamp = 0\<rparr>,
      \<lparr>text = ascii '' hi '', isBot = False, timestamp = 1\<rparr>,
      \<lparr>text = TROUBLE_CONNECTING, isBot = True, timestamp = 9\<rparr>]
   \<and> snd (handleSendMessage_settled example_in_flight
       (Throws (StatusError 500 (ascii ''Internal Server Error''))) 9) =
     [(ascii ''Error getting AI response:'', StatusError 500 (ascii ''Internal Server Error''))]
   \<and> messages (complete_turn example_ready 1 2 [CloseClick]
       (Throws (ConnectionError (ascii ''Failed to fetch''))) 9) =
     [\<lparr>text = GREETING, isBot = True, timestamp = 0\<rparr>,
      \<lparr>text = ascii '' hi '', isBot = False, timestamp = 1\<rparr>,
      \<lparr>text = TROUBLE_CONNECTING, isBot = True, timestamp = 9\<rparr>]"
proof -
  have e: "list_all in_flight_event [CloseClick]" by simp
  show ?thesis
    using failure_fallback [of example_in_flight "StatusError 500 (ascii ''Internal Server Error'')" 9
        example_ready "[]" 1 2]
      failure_fallback [of example_in_flight "ConnectionError (ascii ''Failed to fetch'')" 9
        example_ready "[CloseClick]" 1 2]
      ready_hyps e
    by (simp add: example_in_flight_eq example_ready_eq)
qed




text \<open>
  C6. Mounting leaves exactly one assistant Message in the store: the greeting when the
  client exists, the configuration warning otherwise, and the two texts differ. The
  client exists exactly when the configured key is a non-empty string and the
  constructor did not throw. Whatever events follow, the first Message of the store is
  this seeded one.
\<close>

theorem seeded_first_message:
  "messages (mount openai now) =
     [\<lparr>text = (if openai \<noteq> None then GREETING else KEY_NOT_CONFIGURED), isBot = True, timestamp = now\<rparr>]
   \<and> take 1 (messages (run (mount openai now) evs)) = messages (mount openai now)
   \<and> GREETING \<noteq> KEY_NOT_CONFIGURED
   \<and> fst (init_openai None new_OpenAI) = None
   \<and> fst (init_openai (Some []) new_OpenAI) = None
   \<and> (k \<noteq> [] \<and> new_OpenAI k True = Inr client \<longrightarrow> fst (init_openai (Some k) new_OpenAI) = Some client)
   \<and> (k \<noteq> [] \<and> new_OpenAI k True = Inl e \<longrightarrow> fst (init_openai (Some k) new_OpenAI) = None)"
proof -
  have a: "take 1 (messages (run (mount openai now) evs)) = messages (mount openai now)"
    by (simp only: mount_messages run_keeps_first)
  have b: "fst (init_openai None new_OpenAI) = None"
    "fst (init_openai (Some []) new_OpenAI) = None"
    "k \<noteq> [] \<and> new_OpenAI k True = Inr client \<longrightarrow> fst (init_openai (Some k) new_OpenAI) = Some client"
    "k \<noteq> [] \<and> new_OpenAI k True = Inl e \<longrightarrow> fst (init_openai (Some k) new_OpenAI) = None"
    by (simp_all add: init_openai_def truthy_def)
  show ?thesis using a b mount_messages greeting_differs by blast
qed

theorem seeded_first_message_witness:
  "messages (mount (fst (init_openai (Some (ascii ''sk-test'')) example_ctor)) 0) =
     [\<lparr>text = GREETING, isBot = True, timestamp = 0\<rparr>]
   \<and> messages (mount (fst (init_openai None example_ctor)) 0) =
     [\<lparr>text = KEY_NOT_CONFIGURED, isBot = True, timestamp = 0\<rparr>]
   \<and> take 1 (messages (run (mount (Some example_client) 0)
        [OpenClick, Change (ascii ''hi''), Submit 1 2, Settled (Returns reply_4) 3, CloseClick])) =
     [\<lparr>text = GREETING, isBot = True, timestamp = 0\<rparr>]"
proof -
  have k: "ascii ''sk-test'' \<noteq> []" by (simp add: ascii_def)
  have c: "example_ctor (ascii ''sk-test'') True = Inr example_client"
    by (simp add: example_ctor_def example_client_def)
  show ?thesis
    using seeded_first_message [of "Some example_client" 0
        "[OpenClick, Change (ascii ''hi''), Submit 1 2, Settled (Returns reply_4) 3, CloseClick]"
        example_ctor "ascii ''sk-test''" example_client]
      seeded_first_message [of None 0 "[]" example_ctor "ascii ''sk-test''" example_client]
      k c
    by simp
qed

text \<open>
  C7. When the awaited call returns and \<^verbatim>\<open>completion.choices[0]?.message?.content\<close> is
  \<^verbatim>\<open>undefined\<close> (no first choice, or a first choice without message or content), \<^verbatim>\<open>null\<close>
  or the empty string, the handler appends nothing and logs nothing: it only clears the
  loading flag, and the whole turn has added the user Message alone.
\<close>

theorem empty_response_silent:
  assumes "botResponse completion = Inr None \<or> botResponse completion = Inr (Some [])"
  shows "handleSendMessage_settled s (Returns completion) later = (s\<lparr>isLoading := False\<rparr>, [])
    \<and> (message s0 \<noteq> [] \<and> \<not> whitespace_only (message s0) \<and> \<not> isLoading s0 \<and> isApiKeySet s0
        \<and> list_all in_flight_event evs \<longrightarrow>
       messages (complete_turn s0 now now' evs (Returns completion) later) =
         messages s0 @ [\<lparr>text = message s0, isBot = False, timestamp = now\<rparr>])"
proof
  from assms show "handleSendMessage_settled s (Returns completion) later = (s\<lparr>isLoading := False\<rparr>, [])"
    by (auto simp: settled_Returns)
next
  show "message s0 \<noteq> [] \<and> \<not> whitespace_only (message s0) \<and> \<not> isLoading s0 \<and> isApiKeySet s0
        \<and> list_all in_flight_event evs \<longrightarrow>
       messages (complete_turn s0 now now' evs (Returns completion) later) =
         messages s0 @ [\<lparr>text = message s0, isBot = False, timestamp = now\<rparr>]"
    using assms by (auto simp: complete_turn_available)
qed

theorem empty_response_silent_witness:
  "botResponse null_content = Inr None
   \<and> handleSendMessage_settled example_in_flight (Returns null_content) 9 =
       (example_in_flight\<lparr>isLoading := False\<rparr>, [])
   \<and> botResponse no_choices = Inr None
   \<and> handleSendMessage_settled example_in_flight (Returns no_choices) 9 =
       (example_in_flight\<lparr>isLoading := False\<rparr>, [])
   \<and> messages (complete_turn example_ready 1 2 [MinimizeClick] (Returns null_content) 9) =
       [\<lparr>text = GREETING, isBot = True, timestamp = 0\<rparr>,
        \<lparr>text = ascii '' hi '', isBot = False, timestamp = 1\<rparr>]"
proof -
  have h: "botResponse null_content = Inr None \<or> botResponse null_content = Inr (Some [])"
    by (simp add: botResponse_null_content)
  have e: "list_all in_flight_event [MinimizeClick]" by simp
  have h': "botResponse no_choices = Inr None \<or> botResponse no_choices = Inr (Some [])"
    by (simp add: botResponse_no_choices)
  show ?thesis
    using empty_response_silent [OF h, of example_in_flight 9 example_ready "[MinimizeClick]" 1 2]
      empty_response_silent [OF h', of example_in_flight 9 example_ready "[]" 1 2]
      ready_hyps e
    by (simp add: botResponse_null_content botResponse_no_choices example_ready_eq)
qed

text \<open>
  C8. Opening, minimizing and closing never change the message store, in any order and
  any number of times: after closing the widget is closed and the store is what it was,
  and it still is after reopening.
\<close>

theorem visibility_keeps_store:
  assumes "list_all visibility_event evs"
  shows "messages (run s evs) = messages s
    \<and> messages (close_click s) = messages s \<and> \<not> isOpen (close_click s)
    \<and> messages (open_click (close_click s)) = messages s
    \<and> messages (minimize_click s s) = messages s"
  using assms by (simp add: run_visibility close_click_def open_click_def minimize_click_def)

theorem visibility_keeps_store_witness:
  "list_all visibility_event [MinimizeClick, CloseClick, OpenClick, MinimizeClick]
   \<and> messages (run example_in_flight [MinimizeClick, CloseClick, OpenClick, MinimizeClick]) =
       [\<lparr>text = GREETING, isBot = True, timestamp = 0\<rparr>,
        \<lparr>text = ascii '' hi '', isBot = False, timestamp = 1\<rparr>]
   \<and> messages (close_click example_in_flight) =
       [\<lparr>text = GREETING, isBot = True, timestamp = 0\<rparr>,
        \<lparr>text = ascii '' hi '', isBot = False, timestamp = 1\<rparr>]"
proof -
  have h: "list_all visibility_event [MinimizeClick, CloseClick, OpenClick, MinimizeClick]" by simp
  show ?thesis
    using h visibility_keeps_store [OF h, of example_in_flight]
    by (simp add: example_in_flight_eq)
qed

text \<open>
  C9. For every accepted submission the appended user Message carries the draft exactly
  as typed, untrimmed, and when a request is made its final record is a user record
  with that same raw string.
\<close>

theorem raw_draft_text:
  assumes "message s \<noteq> []" and "\<not> whitespace_only (message s)" and "\<not> isLoading s"
  shows "take (Suc (length (messages s))) (messages (fst (submit s now now'))) =
       messages s @ [\<lparr>text = message s, isBot = False, timestamp = now\<rparr>]
    \<and> (isApiKeySet s \<longrightarrow>
        (\<exists>request. snd (submit s now now') = Some request
           \<and> last (messages_param request) = \<lparr>role = User, content = message s\<rparr>))"
proof (cases "isApiKeySet s")
  case True
  with assms show ?thesis by (simp add: submit_def handleSendMessage_available)
next
  case False
  with assms show ?thesis by (simp add: submit_def handleSendMessage_unavailable)
qed

theorem raw_draft_text_witness:
  "message example_ready \<noteq> [] \<and> \<not> whitespace_only (message example_ready)
   \<and> \<not> isLoading example_ready \<and> isApiKeySet example_ready
   \<and> trim (message example_ready) = ascii ''hi''
   \<and> take 2 (messages (fst (submit example_ready 1 2))) =
       [\<lparr>text = GREETING, isBot = True, timestamp = 0\<rparr>,
        \<lparr>text = ascii '' hi '', isBot = False, timestamp = 1\<rparr>]
   \<and> (\<exists>request. snd (submit example_ready 1 2) = Some request
         \<and> last (messages_param request) = \<lparr>role = User, content = ascii '' hi ''\<rparr>)"
proof -
  have t: "trim (message example_ready) = ascii ''hi''" by (simp add: example_ready_eq trim_hi_sp)
  show ?thesis
    using raw_draft_text [OF ready_hyps(1-3), of 1 2] ready_hyps t
    by (simp add: example_ready_eq numeral_2_eq_2)
qed

text \<open>
  C10. For every accepted submission with the client available, the transcript part of
  the payload is the store as it was before the new user Message was appended, and the
  new text is the final record: the payload is the system record followed by one record
  for each message of the store after the append, so the new message adds exactly one
  record (one more than the records of that role and text already in the transcript).
\<close>

theorem payload_holds_new_message_once:
  assumes "message s \<noteq> []" and "\<not> whitespace_only (message s)" and "\<not> isLoading s"
    and "isApiKeySet s" and "submit s now now' = (s', request)"
  shows "\<exists>req. request = Some req
     \<and> messages s' = messages s @ [\<lparr>text = message s, isBot = False, timestamp = now\<rparr>]
     \<and> messages_param req =
         \<lparr>role = System, content = SYSTEM_PROMPT\<rparr> # map to_param (messages s)
         @ [\<lparr>role = User, content = message s\<rparr>]
     \<and> messages_param req = \<lparr>role = System, content = SYSTEM_PROMPT\<rparr> # map to_param (messages s')
     \<and> length (messages_param req) = length (messages s) + 2
     \<and> count_list (messages_param req) \<lparr>role = User, content = message s\<rparr> =
         Suc (count_list (map to_param (messages s)) \<lparr>role = User, content = message s\<rparr>)"
proof -
  from assms have "(s', request) =
     (s\<lparr>messages := messages s @ [\<lparr>text = message s, isBot = False, timestamp = now\<rparr>],
        message := [], isLoading := True\<rparr>,
      Some \<lparr>messages_param = \<lparr>role = System, content = SYSTEM_PROMPT\<rparr>
                # map to_param (messages s) @ [\<lparr>role = User, content = message s\<rparr>],
            model = ascii ''gpt-3.5-turbo'', temperature = 7 / 10, max_tokens = 500\<rparr>)"
    by (simp add: submit_def handleSendMessage_available)
  then show ?thesis by (simp add: to_param_def)
qed

theorem payload_holds_new_message_once_witness:
  "message example_repeat \<noteq> [] \<and> \<not> whitespace_only (message example_repeat)
   \<and> \<not> isLoading example_repeat \<and> isApiKeySet example_repeat
   \<and> (\<exists>req. snd (submit example_repeat 4 5) = Some req
        \<and> messages_param req =
            [\<lparr>role = System, content = SYSTEM_PROMPT\<rparr>,
             \<lparr>role = Assistant, content = GREETING\<rparr>,
             \<lparr>role = User, content = ascii ''hi''\<rparr>,
             \<lparr>role = Assistant, content = ascii ''4''\<rparr>,
             \<lparr>role = User, content = ascii ''hi''\<rparr>]
        \<and> messages (fst (submit example_repeat 4 5)) =
            [\<lparr>text = GREETING, isBot = True, timestamp = 0\<rparr>,
             \<lparr>text = ascii ''hi'', isBot = False, timestamp = 1\<rparr>,
             \<lparr>text = ascii ''4'', isBot = True, timestamp = 3\<rparr>,
             \<lparr>text = ascii ''hi'', isBot = False, timestamp = 4\<rparr>])"
proof -
  have p: "submit example_repeat 4 5 = (fst (submit example_repeat 4 5), snd (submit example_repeat 4 5))"
    by simp
  show ?thesis
    using payload_holds_new_message_once [OF repeat_hyps p] repeat_hyps
    by (auto simp: example_repeat_eq to_param_def)
qed

end
